theory Spec2Isabelle
  imports Complex_Main
begin

section \<open>The Python values the quote fetcher handles\<close>

text \<open>
  The provider \<^verbatim>\<open>ZeroxProvider.get_quote\<close> (providers/zerox/__init__.py) works on
  what \<^verbatim>\<open>response.json()\<close> returns: \<^verbatim>\<open>None\<close>, booleans, unbounded integers,
  floats, strings, lists and dictionaries. A Python float is an IEEE binary64 number; a
  finite one is kept as its exact rational value.
\<close>

datatype pyfloat = Finite rat | NegZero | PosInf | NegInf | NaN

datatype pyval =
    PNone
  | PBool bool
  | PInt int
  | PFloat pyfloat
  | PStr string
  | PList "pyval list"
  | PDict "(string \<times> pyval) list"

type_synonym pydict = "(string \<times> pyval) list"

text \<open>
  A \<^verbatim>\<open>requests.Response\<close>, as far as the provider reads it: the status code, the reason
  phrase and URL (they make up the message of \<^verbatim>\<open>raise_for_status\<close>), and the content:
  the value \<^verbatim>\<open>json()\<close> decodes it to, or the decoder's message when it is not JSON.
\<close>

record response =
  status_code :: int
  reason :: string
  resp_url :: string
  body :: "string + pyval"

text \<open>The exceptions in play. \<^verbatim>\<open>requests.RequestException\<close> (any subclass of it) has a
  message and the response it was raised for, if any.\<close>

datatype py_exception =
    RequestException string "response option"
  | ValueError
  | TypeError
  | OverflowError
  | ZeroDivisionError
  | AttributeError

subsection \<open>Truthiness: \<^verbatim>\<open>if raw_output:\<close>\<close>

fun py_bool :: "pyval \<Rightarrow> bool" where
  "py_bool PNone = False"
| "py_bool (PBool b) = b"
| "py_bool (PInt i) = (i \<noteq> 0)"
| "py_bool (PFloat f) = (f \<noteq> Finite 0 \<and> f \<noteq> NegZero)"
| "py_bool (PStr s) = (s \<noteq> [])"
| "py_bool (PList xs) = (xs \<noteq> [])"
| "py_bool (PDict kvs) = (kvs \<noteq> [])"

subsection \<open>\<^verbatim>\<open>dict.get\<close> and \<^verbatim>\<open>str.lower\<close>\<close>

definition dict_get :: "pydict \<Rightarrow> string \<Rightarrow> pyval" where
  "dict_get d k = (case map_of d k of None \<Rightarrow> PNone | Some v \<Rightarrow> v)"

text \<open>
  Characters are the code points U+0000 to U+00FF. \<^verbatim>\<open>str.lower\<close> maps A-Z and the
  capital letters U+00C0 to U+00DE (the multiplication sign U+00D7 apart) 32 places up.
\<close>

definition lower_char :: "char \<Rightarrow> char" where
  "lower_char c =
     (let n = of_char c :: nat
      in if (65 \<le> n \<and> n \<le> 90) \<or> (192 \<le> n \<and> n \<le> 222 \<and> n \<noteq> 215)
         then char_of (n + 32) else c)"

definition lower :: "string \<Rightarrow> string" where
  "lower s = map lower_char s"

subsection \<open>Rounding to binary64\<close>

definition pow2 :: "int \<Rightarrow> rat" where
  "pow2 e = (if 0 \<le> e then 2 ^ nat e else 1 / 2 ^ nat (- e))"

definition pow10 :: "int \<Rightarrow> rat" where
  "pow10 e = (if 0 \<le> e then 10 ^ nat e else 1 / 10 ^ nat (- e))"

text \<open>The number of digits of a positive integer in base \<open>b\<close>.\<close>

function digit_count :: "int \<Rightarrow> int \<Rightarrow> nat" where
  "digit_count b n = (if 0 < n \<and> 1 < b then Suc (digit_count b (n div b)) else 0)"
  by pat_completeness auto
termination
  by (relation "measure (\<lambda>(b, n). nat n)") (auto simp add: int_div_less_self)

declare digit_count.simps [simp del]

text \<open>For \<open>0 < r\<close>: the \<open>e\<close> with \<open>b ^ e \<le> r < b ^ (e + 1)\<close>, from the digit counts of
  numerator and denominator.\<close>

definition floor_log :: "int \<Rightarrow> rat \<Rightarrow> int" where
  "floor_log b r =
     (let (p, q) = quotient_of r;
          e0 = int (digit_count b p) - int (digit_count b q);
          be = (if 0 \<le> e0 then of_int b ^ nat e0 else 1 / of_int b ^ nat (- e0))
      in if be \<le> r then e0 else e0 - 1)"

definition round_half_even :: "rat \<Rightarrow> int" where
  "round_half_even x =
     (let f = \<lfloor>x\<rfloor>; d = x - of_int f
      in if d < 1 / 2 then f
         else if 1 / 2 < d then f + 1
         else if even f then f else f + 1)"

text \<open>The double nearest to a rational, ties to the even mantissa: 53 bits of mantissa,
  the smallest unit \<open>2 ^ -1074\<close>, overflow from \<open>2 ^ 1024\<close> on.\<close>

definition round_double :: "rat \<Rightarrow> pyfloat" where
  "round_double r =
     (if r = 0 then Finite 0
      else
        let a = \<bar>r\<bar>;
            ue = max (floor_log 2 a - 52) (- 1074);
            v = of_int (round_half_even (a / pow2 ue)) * pow2 ue
        in if pow2 1024 \<le> v then (if r < 0 then NegInf else PosInf)
           else if v = 0 then (if r < 0 then NegZero else Finite 0)
           else Finite (if r < 0 then - v else v))"

definition is_neg :: "pyfloat \<Rightarrow> bool" where
  "is_neg f = (case f of Finite r \<Rightarrow> r < 0 | NegZero \<Rightarrow> True | NegInf \<Rightarrow> True | _ \<Rightarrow> False)"

definition signed_zero :: "bool \<Rightarrow> pyfloat" where
  "signed_zero neg = (if neg then NegZero else Finite 0)"

definition signed_inf :: "bool \<Rightarrow> pyfloat" where
  "signed_inf neg = (if neg then NegInf else PosInf)"

subsection \<open>\<^verbatim>\<open>float(raw_output)\<close>\<close>

definition is_digit :: "char \<Rightarrow> bool" where
  "is_digit c = (48 \<le> (of_char c :: nat) \<and> (of_char c :: nat) \<le> 57)"

definition digit_val :: "char \<Rightarrow> int" where
  "digit_val c = of_char c - 48"

definition digits_val :: "string \<Rightarrow> int" where
  "digits_val ds = foldl (\<lambda>a c. 10 * a + digit_val c) 0 ds"

text \<open>White space that \<^verbatim>\<open>float\<close> strips from both ends of a string: tab to carriage
  return, the space, and of the code points from U+0080 on, U+0085 and U+00A0.\<close>

definition is_space :: "char \<Rightarrow> bool" where
  "is_space c = (let n = of_char c :: nat in (9 \<le> n \<and> n \<le> 13) \<or> n = 32 \<or> n = 133 \<or> n = 160)"

text \<open>An underscore is allowed between two digits only; the first argument is the
  character before.\<close>

fun strip_underscores :: "char \<Rightarrow> string \<Rightarrow> string option" where
  "strip_underscores prev [] = (if prev = CHR ''_'' then None else Some [])"
| "strip_underscores prev (c # cs) =
     (if c = CHR ''_'' then (if is_digit prev then strip_underscores c cs else None)
      else if prev = CHR ''_'' \<and> \<not> is_digit c then None
      else map_option ((#) c) (strip_underscores c cs))"

definition strip_space :: "string \<Rightarrow> string" where
  "strip_space s = rev (dropWhile is_space (rev (dropWhile is_space s)))"

text \<open>The exponent part: nothing, or \<^verbatim>\<open>e\<close>, an optional sign and at least one digit, up
  to the end of the string.\<close>

definition parse_exponent :: "string \<Rightarrow> int option" where
  "parse_exponent s =
     (case s of
        [] \<Rightarrow> Some 0
      | c # cs \<Rightarrow>
          if c = CHR ''e'' \<or> c = CHR ''E'' then
            (let (neg, ds) =
                   (case cs of
                      [] \<Rightarrow> (False, [])
                    | d # ds' \<Rightarrow>
                        if d = CHR ''-'' then (True, ds')
                        else if d = CHR ''+'' then (False, ds') else (False, cs))
             in if ds \<noteq> [] \<and> list_all is_digit ds
                then Some (if neg then - digits_val ds else digits_val ds)
                else None)
          else None)"

text \<open>An unsigned decimal numeral: digits, an optional point and digits (one digit at
  least), an optional exponent. The result is its exact value.\<close>

definition parse_decimal :: "string \<Rightarrow> rat option" where
  "parse_decimal s =
     (let ip = takeWhile is_digit s;
          r1 = dropWhile is_digit s;
          (fp, r2) =
            (case r1 of
               [] \<Rightarrow> ([], [])
             | c # cs \<Rightarrow>
                 if c = CHR ''.'' then (takeWhile is_digit cs, dropWhile is_digit cs)
                 else ([], r1))
      in if ip = [] \<and> fp = [] then None
         else
           (case parse_exponent r2 of
              None \<Rightarrow> None
            | Some e \<Rightarrow>
                Some (of_int (digits_val (ip @ fp)) * pow10 (e - int (length fp)))))"

definition ascii_lower :: "string \<Rightarrow> string" where
  "ascii_lower s =
     map (\<lambda>c. if 65 \<le> (of_char c :: nat) \<and> (of_char c :: nat) \<le> 90
              then char_of ((of_char c :: nat) + 32) else c) s"

definition float_of_string :: "string \<Rightarrow> py_exception + pyfloat" where
  "float_of_string s0 =
     (case strip_underscores (char_of (0 :: nat)) s0 of
        None \<Rightarrow> Inl ValueError
      | Some s1 \<Rightarrow>
          let s = strip_space s1;
              (neg, body) =
                (case s of
                   [] \<Rightarrow> (False, [])
                 | c # cs \<Rightarrow>
                     if c = CHR ''-'' then (True, cs)
                     else if c = CHR ''+'' then (False, cs) else (False, s))
          in if ascii_lower body = ''inf'' \<or> ascii_lower body = ''infinity''
             then Inr (signed_inf neg)
             else if ascii_lower body = ''nan'' then Inr NaN
             else
               (case parse_decimal body of
                  None \<Rightarrow> Inl ValueError
                | Some v \<Rightarrow>
                    if v = 0 then Inr (signed_zero neg)
                    else Inr (round_double (if neg then - v else v))))"

text \<open>An integer too large for a double raises \<^verbatim>\<open>OverflowError\<close>.\<close>

definition float_of_int :: "int \<Rightarrow> py_exception + pyfloat" where
  "float_of_int i =
     (case round_double (of_int i) of
        PosInf \<Rightarrow> Inl OverflowError
      | NegInf \<Rightarrow> Inl OverflowError
      | f \<Rightarrow> Inr f)"

fun py_float :: "pyval \<Rightarrow> py_exception + pyfloat" where
  "py_float (PStr s) = float_of_string s"
| "py_float (PInt i) = float_of_int i"
| "py_float (PBool b) = Inr (Finite (if b then 1 else 0))"
| "py_float (PFloat f) = Inr f"
| "py_float PNone = Inl TypeError"
| "py_float (PList xs) = Inl TypeError"
| "py_float (PDict kvs) = Inl TypeError"

subsection \<open>\<^verbatim>\<open>raw_float / (10 ** output_decimals)\<close>\<close>

definition is_zero :: "pyfloat \<Rightarrow> bool" where
  "is_zero f = (f = Finite 0 \<or> f = NegZero)"

definition is_inf :: "pyfloat \<Rightarrow> bool" where
  "is_inf f = (f = PosInf \<or> f = NegInf)"

definition float_div :: "pyfloat \<Rightarrow> pyfloat \<Rightarrow> py_exception + pyfloat" where
  "float_div x y =
     (if is_zero y then Inl ZeroDivisionError
      else if x = NaN \<or> y = NaN then Inr NaN
      else if is_inf x then (if is_inf y then Inr NaN else Inr (signed_inf (is_neg x \<noteq> is_neg y)))
      else if is_inf y \<or> is_zero x then Inr (signed_zero (is_neg x \<noteq> is_neg y))
      else
        (case (x, y) of
           (Finite a, Finite b) \<Rightarrow> Inr (round_double (a / b))
         | _ \<Rightarrow> Inr NaN))"

text \<open>Float by integer: the integer is converted first.\<close>

definition truediv_int :: "pyfloat \<Rightarrow> int \<Rightarrow> py_exception + pyfloat" where
  "truediv_int x n = (case float_of_int n of Inl e \<Rightarrow> Inl e | Inr y \<Rightarrow> float_div x y)"

subsection \<open>\<^verbatim>\<open>str\<close>\<close>

text \<open>The decimal digits of a non-negative integer.\<close>

function str_nat :: "int \<Rightarrow> string" where
  "str_nat n =
     (if n < 10 then [char_of (48 + n)] else str_nat (n div 10) @ [char_of (48 + n mod 10)])"
  by pat_completeness auto
termination
  by (relation "measure nat") (auto simp add: int_div_less_self)

declare str_nat.simps [simp del]

definition str_int :: "int \<Rightarrow> string" where
  "str_int i = (if i < 0 then CHR ''-'' # str_nat (- i) else str_nat i)"

text \<open>
  The \<^verbatim>\<open>repr\<close> of a float is the shortest decimal numeral that reads back as the same
  double (the nearest to it, when there are several; of two equally near, the one
  with the even last digit). \<open>shortest_candidate a k n\<close> looks
  for one of \<open>n\<close> significant digits, \<open>k\<close> being the decimal exponent of \<open>a\<close>; seventeen
  digits always suffice.
\<close>

definition shortest_candidate :: "rat \<Rightarrow> int \<Rightarrow> nat \<Rightarrow> (int \<times> int) option" where
  "shortest_candidate a k n =
     (let e = k - int n + 1;
          s = a / pow10 e;
          lo = \<lfloor>s\<rfloor>;
          hi = lo + 1;
          ok_lo = (round_double (of_int lo * pow10 e) = Finite a);
          ok_hi = (round_double (of_int hi * pow10 e) = Finite a)
      in if ok_lo \<and> ok_hi then
           (if s - of_int lo < of_int hi - s then Some (lo, e)
            else if of_int hi - s < s - of_int lo then Some (hi, e)
            else if even lo then Some (lo, e) else Some (hi, e))
         else if ok_lo then Some (lo, e)
         else if ok_hi then Some (hi, e)
         else None)"

primrec shortest_digits :: "rat \<Rightarrow> int \<Rightarrow> nat \<Rightarrow> nat \<Rightarrow> int \<times> int" where
  "shortest_digits a k n 0 = (round_half_even (a / pow10 (k - 16)), k - 16)"
| "shortest_digits a k n (Suc fuel) =
     (case shortest_candidate a k n of
        Some r \<Rightarrow> r
      | None \<Rightarrow> shortest_digits a k (Suc n) fuel)"

definition two_digits :: "int \<Rightarrow> string" where
  "two_digits n = (if n < 10 then CHR ''0'' # str_nat n else str_nat n)"

text \<open>Positional notation when the decimal point falls within \<open>-4 < decpt \<le> 16\<close>,
  exponent notation otherwise.\<close>

definition format_repr :: "string \<Rightarrow> int \<Rightarrow> string" where
  "format_repr ds decpt =
     (if - 4 < decpt \<and> decpt \<le> 16 then
        (if decpt \<le> 0 then ''0.'' @ replicate (nat (- decpt)) CHR ''0'' @ ds
         else if int (length ds) \<le> decpt
           then ds @ replicate (nat decpt - length ds) CHR ''0'' @ ''.0''
         else take (nat decpt) ds @ ''.'' @ drop (nat decpt) ds)
      else
        take 1 ds @ (if 1 < length ds then ''.'' @ drop 1 ds else [])
          @ ''e'' @ (if decpt - 1 < 0 then ''-'' else ''+'') @ two_digits \<bar>decpt - 1\<bar>)"

definition repr_positive :: "rat \<Rightarrow> string" where
  "repr_positive a =
     (let (c, e) = shortest_digits a (floor_log 10 a) 1 16;
          ds = str_nat c
      in format_repr (rev (dropWhile (\<lambda>d. d = CHR ''0'') (rev ds))) (int (length ds) + e))"

fun str_float :: "pyfloat \<Rightarrow> string" where
  "str_float NaN = ''nan''"
| "str_float PosInf = ''inf''"
| "str_float NegInf = ''-inf''"
| "str_float NegZero = ''-0.0''"
| "str_float (Finite r) =
     (if r = 0 then ''0.0''
      else if r < 0 then CHR ''-'' # repr_positive (- r)
      else repr_positive r)"

text \<open>The \<^verbatim>\<open>repr\<close> of a string, as it shows inside the \<^verbatim>\<open>str\<close> of a list or dictionary.\<close>

definition hex_digit :: "nat \<Rightarrow> char" where
  "hex_digit n = (if n < 10 then char_of (48 + n) else char_of (87 + n))"

definition repr_char :: "char \<Rightarrow> char \<Rightarrow> string" where
  "repr_char quote c =
     (let n = of_char c :: nat
      in if c = quote \<or> c = CHR 0x5C then [CHR 0x5C, c]
         else if n = 9 then [CHR 0x5C, CHR ''t'']
         else if n = 10 then [CHR 0x5C, CHR ''n'']
         else if n = 13 then [CHR 0x5C, CHR ''r'']
         else if n < 32 \<or> (127 \<le> n \<and> n \<le> 160) \<or> n = 173
           then [CHR 0x5C, CHR ''x'', hex_digit (n div 16), hex_digit (n mod 16)]
         else [c])"

definition repr_string :: "string \<Rightarrow> string" where
  "repr_string s =
     (let quote = (if CHR 0x27 \<in> set s \<and> CHR 0x22 \<notin> set s then CHR 0x22 else CHR 0x27)
      in quote # concat (map (repr_char quote) s) @ [quote])"

fun py_repr :: "pyval \<Rightarrow> string"
  and repr_elems :: "pyval list \<Rightarrow> string"
  and repr_items :: "(string \<times> pyval) list \<Rightarrow> string" where
  "py_repr PNone = ''None''"
| "py_repr (PBool b) = (if b then ''True'' else ''False'')"
| "py_repr (PInt i) = str_int i"
| "py_repr (PFloat f) = str_float f"
| "py_repr (PStr s) = repr_string s"
| "py_repr (PList xs) = ''['' @ repr_elems xs @ '']''"
| "py_repr (PDict kvs) = ''{'' @ repr_items kvs @ ''}''"
| "repr_elems [] = []"
| "repr_elems (x # xs) = py_repr x @ (if xs = [] then [] else '', '' @ repr_elems xs)"
| "repr_items [] = []"
| "repr_items (kv # kvs) =
     repr_string (fst kv) @ '': '' @ py_repr (snd kv)
       @ (if kvs = [] then [] else '', '' @ repr_items kvs)"

definition py_str :: "pyval \<Rightarrow> string" where
  "py_str v = (case v of PStr s \<Rightarrow> s | _ \<Rightarrow> py_repr v)"

section \<open>The \<^verbatim>\<open>requests\<close> library and the clock\<close>

record http_request =
  req_method :: string
  req_url :: string
  req_headers :: "(string \<times> string) list"
  req_params :: "(string \<times> string) list"
  req_timeout :: nat

text \<open>
  The world outside the process: the successive readings of \<^verbatim>\<open>time.perf_counter\<close> and
  how many of them have been taken, what the network does with a request (a response or
  an exception), and the requests sent so far.
\<close>

record world =
  clock :: "nat \<Rightarrow> pyfloat"
  reads :: nat
  network :: "http_request \<Rightarrow> py_exception + response"
  sent :: "http_request list"

definition perf_counter :: "world \<Rightarrow> pyfloat \<times> world" where
  "perf_counter w = (clock w (reads w), w\<lparr>reads := Suc (reads w)\<rparr>)"

definition requests_get ::
  "string \<Rightarrow> (string \<times> string) list \<Rightarrow> (string \<times> string) list \<Rightarrow> nat \<Rightarrow> world
    \<Rightarrow> (py_exception + response) \<times> world" where
  "requests_get u headers params timeout w =
     (let req = \<lparr>req_method = ''GET'', req_url = u, req_headers = headers,
                   req_params = params, req_timeout = timeout\<rparr>
      in (network w req, w\<lparr>sent := sent w @ [req]\<rparr>))"

text \<open>\<^verbatim>\<open>Response.raise_for_status\<close> raises \<^verbatim>\<open>HTTPError\<close> for the statuses 400 to 599 and
  for no other.\<close>

definition raise_for_status :: "response \<Rightarrow> py_exception + unit" where
  "raise_for_status r =
     (if 400 \<le> status_code r \<and> status_code r < 500 then
        Inl (RequestException
              (str_int (status_code r) @ '' Client Error: '' @ reason r @ '' for url: '' @ resp_url r)
              (Some r))
      else if 500 \<le> status_code r \<and> status_code r < 600 then
        Inl (RequestException
              (str_int (status_code r) @ '' Server Error: '' @ reason r @ '' for url: '' @ resp_url r)
              (Some r))
      else Inr ())"

text \<open>The truth value of a response is its \<^verbatim>\<open>ok\<close>: whether \<^verbatim>\<open>raise_for_status\<close> passes.\<close>

definition response_ok :: "response \<Rightarrow> bool" where
  "response_ok r = (case raise_for_status r of Inl e \<Rightarrow> False | Inr u \<Rightarrow> True)"

text \<open>\<^verbatim>\<open>Response.json\<close>: content that is not JSON raises
  \<^verbatim>\<open>requests.exceptions.JSONDecodeError\<close>, a \<^verbatim>\<open>RequestException\<close> with no response attached.\<close>

definition response_json :: "response \<Rightarrow> py_exception + pyval" where
  "response_json r =
     (case body r of Inl msg \<Rightarrow> Inl (RequestException msg None) | Inr v \<Rightarrow> Inr v)"

text \<open>\<^verbatim>\<open>.get(key)\<close> on the decoded body: only a dictionary has the method.\<close>

definition json_get :: "pyval \<Rightarrow> string \<Rightarrow> py_exception + pyval" where
  "json_get j k = (case j of PDict d \<Rightarrow> Inr (dict_get d k) | _ \<Rightarrow> Inl AttributeError)"

text \<open>Float subtraction, for the elapsed time.\<close>

definition float_sub :: "pyfloat \<Rightarrow> pyfloat \<Rightarrow> pyfloat" where
  "float_sub x y =
     (if x = NaN \<or> y = NaN then NaN
      else if is_inf x then (if is_inf y \<and> is_neg x = is_neg y then NaN else x)
      else if is_inf y then signed_inf (\<not> is_neg y)
      else
        (let a = (case x of Finite r \<Rightarrow> r | _ \<Rightarrow> 0);
             b = (case y of Finite r \<Rightarrow> r | _ \<Rightarrow> 0)
         in if a - b = 0 then (if x = NegZero \<and> y = Finite 0 then NegZero else Finite 0)
            else round_double (a - b)))"

section \<open>The static chain configuration (data/chain.py)\<close>

record token =
  address :: string
  symbol :: string
  decimals :: nat

record chain_entry =
  blockchain :: string
  normalization_token :: token
  trading_tokens :: "token list"

definition CHAIN_CONFIG :: "(string \<times> chain_entry) list" where
  "CHAIN_CONFIG =
     [(''999'',
      \<lparr>blockchain = ''hyperevm'',
       normalization_token = \<lparr>address = ''0x5d3a1ff2b6bab83b63cd9ad0787074081a52ef34'', symbol = ''USDe'', decimals = 18\<rparr>,
       trading_tokens =
         [\<lparr>address = ''0xb8ce59fc3717ada4c02eadf9682a9e934f625ebb'', symbol = ''USDT0'', decimals = 6\<rparr>,
          \<lparr>address = ''0x02c6a2fa58cc01a18b8d9e00ea48d65e4df26c70'', symbol = ''FEUSD'', decimals = 18\<rparr>,
          \<lparr>address = ''0x5555555555555555555555555555555555555555'', symbol = ''HYPE'', decimals = 18\<rparr>,
          \<lparr>address = ''0xffaa4a3d97fe9107cef8a3f48c069f577ff76cc1'', symbol = ''stHYPE'', decimals = 18\<rparr>,
          \<lparr>address = ''0x5748ae796ae46a4f1348a1693de4b50560485562'', symbol = ''LHYPE'', decimals = 18\<rparr>,
          \<lparr>address = ''0xca79db4b49f608ef54a5cb813fbed3a6387bc645'', symbol = ''USDXL'', decimals = 18\<rparr>,
          \<lparr>address = ''0x9fdbda0a5e284c32744d2f17ee5c74b284993463'', symbol = ''UBTC'', decimals = 8\<rparr>,
          \<lparr>address = ''0x94e8396e0869c9f2200760af0621afd240e1cf38'', symbol = ''WSTHYPE'', decimals = 18\<rparr>,
          \<lparr>address = ''0x9b498c3c8a0b8cd8ba1d9851d40d186f1872b44e'', symbol = ''PURR'', decimals = 18\<rparr>,
          \<lparr>address = ''0xfD739d4e423301CE9385c1fb8850539D657C296D'', symbol = ''kHYPE'', decimals = 18\<rparr>,
          \<lparr>address = ''0xcb0ac0aa94c67dde8688ac34c8e4d6c18e78b638'', symbol = ''LIQD'', decimals = 6\<rparr>,
          \<lparr>address = ''0xf4d9235269a96aadafc9adae454a0618ebe37949'', symbol = ''XAUTO'', decimals = 6\<rparr>,
          \<lparr>address = ''0x27ec642013bcb3d80ca3706599d3cda04f6f4452'', symbol = ''UPUMP'', decimals = 6\<rparr>,
          \<lparr>address = ''0xb50A96253aBDF803D85efcDce07Ad8becBc52BD5'', symbol = ''USDHL'', decimals = 6\<rparr>,
          \<lparr>address = ''0x5d3a1ff2b6bab83b63cd9ad0787074081a52ef34'', symbol = ''USDe'', decimals = 18\<rparr>]\<rparr>),
      (''9745'',
      \<lparr>blockchain = ''plasma'',
       normalization_token = \<lparr>address = ''0xB8CE59FC3717ada4C02eaDF9682A9e934F625ebb'', symbol = ''USDT0'', decimals = 6\<rparr>,
       trading_tokens =
         [\<lparr>address = ''0xeeeeeeeeeeeeeeeeeeeeeeeeeeeeeeeeeeeeeeee'', symbol = ''XPL'', decimals = 18\<rparr>,
          \<lparr>address = ''0x5d3a1ff2b6bab83b63cd9ad0787074081a52ef34'', symbol = ''USDe'', decimals = 18\<rparr>,
          \<lparr>address = ''0x9895d81bb462a195b4922ed7de0e3acd007c32cb'', symbol = ''WETH'', decimals = 18\<rparr>,
          \<lparr>address = ''0x1B64B9025EEbb9A6239575dF9Ea4b9Ac46D4d193'', symbol = ''XAUt0'', decimals = 6\<rparr>,
          \<lparr>address = ''0xc4374775489cb9c56003bf2c9b12495fc64f0771'', symbol = ''syrupUSDT'', decimals = 6\<rparr>,
          \<lparr>address = ''0xA3D68b74bF0528fdD07263c60d6488749044914b'', symbol = ''weETH'', decimals = 18\<rparr>,
          \<lparr>address = ''0x0A1a1A107E45b7Ced86833863f482BC5f4ed82EF'', symbol = ''USDai'', decimals = 18\<rparr>,
          \<lparr>address = ''0x0B2b2B2076d95dda7817e785989fE353fe955ef9'', symbol = ''sUSDai'', decimals = 18\<rparr>,
          \<lparr>address = ''0x87e617C7484aDE79FcD90db58BEB82B057facb48'', symbol = ''USDo'', decimals = 18\<rparr>,
          \<lparr>address = ''0x6eAf19b2FC24552925dB245F9Ff613157a7dbb4C'', symbol = ''XUSD'', decimals = 6\<rparr>,
          \<lparr>address = ''0x92A01Ab7317Ac318b39b00EB6704ba56F0245D7a'', symbol = ''trillions'', decimals = 18\<rparr>]\<rparr>)]"

section \<open>The provider (providers/zerox/__init__.py)\<close>

record ZeroxSettings =
  url :: string
  api_key :: string

text \<open>The provider object: \<^verbatim>\<open>__init__\<close> hands \<^verbatim>\<open>settings.api_key\<close> to the base class,
  and \<^verbatim>\<open>get_quote\<close> reads it back as \<^verbatim>\<open>self.api_key\<close>.\<close>

record provider =
  self_api_key :: string

definition ZeroxProvider :: "ZeroxSettings \<Rightarrow> provider" where
  "ZeroxProvider settings = \<lparr>self_api_key = api_key settings\<rparr>"

definition name :: string where
  "name = ''0x''"

definition supported_chains :: "string list" where
  "supported_chains = [''1'', ''10'', ''56'', ''137'', ''42161'', ''8453'', ''43114'', ''9745'']"

text \<open>
  Lines 48 to 72: the formatted output for a raw \<^verbatim>\<open>buyAmount\<close>. \<open>TOKEN_DECIMALS\<close> is the
  table imported from \<^verbatim>\<open>core.runner\<close>, a module outside these sources, so it is an
  argument. The inner \<^verbatim>\<open>except Exception\<close> catches whatever the conversion raises.
  The \<^verbatim>\<open>print\<close> calls are diagnostics and are left out.
\<close>

definition format_output :: "(string \<rightharpoonup> nat) \<Rightarrow> string \<Rightarrow> pyval \<Rightarrow> pyval" where
  "format_output TOKEN_DECIMALS to_token raw_output =
     (if py_bool raw_output then
        (case
           (case TOKEN_DECIMALS (lower to_token) of
              Some output_decimals \<Rightarrow>
                (case py_float raw_output of
                   Inl e \<Rightarrow> Inl e
                 | Inr raw_float \<Rightarrow>
                     (case truediv_int raw_float (10 ^ output_decimals) of
                        Inl e \<Rightarrow> Inl e
                      | Inr converted_amount \<Rightarrow> Inr (PStr (str_float converted_amount))))
            | None \<Rightarrow> Inr (PStr (py_str raw_output)))
         of
           Inl e \<Rightarrow> PStr (py_str raw_output)
         | Inr formatted_output \<Rightarrow> formatted_output)
      else PNone)"

text \<open>
  Lines 81 to 88, the handler of the \<^verbatim>\<open>try\<close>: it catches \<^verbatim>\<open>RequestException\<close> only,
  reads the clock again and returns the error record; any other exception leaves the
  function.
\<close>

definition handle_exception ::
  "pyfloat \<Rightarrow> py_exception \<Rightarrow> world \<Rightarrow> (py_exception + pydict) \<times> world" where
  "handle_exception start_time e w =
     (case e of
        RequestException msg r \<Rightarrow>
          (let (t, w') = perf_counter w;
               elapsed_time = float_sub t start_time
           in (Inr [(''name'', PStr name),
                    (''error'', PStr msg),
                    (''elapsed_time'', PFloat elapsed_time),
                    (''status_code'',
                       (case r of
                          Some resp \<Rightarrow>
                            if response_ok resp then PInt (status_code resp) else PNone
                        | None \<Rightarrow> PNone))],
               w'))
      | _ \<Rightarrow> (Inl e, w))"

text \<open>
  \<^verbatim>\<open>get_quote\<close>. The result is the dictionary returned (\<open>Inr\<close>) or the exception that
  leaves the function (\<open>Inl\<close>), with the world after the call. The clock is read before
  the request, again once the response is there (line 39), and once more when the
  handler runs (line 82).
\<close>

definition get_quote ::
  "ZeroxSettings \<Rightarrow> (string \<rightharpoonup> nat) \<Rightarrow> provider \<Rightarrow> string \<Rightarrow> string \<Rightarrow> string \<Rightarrow> int \<Rightarrow> string
    \<Rightarrow> world \<Rightarrow> (py_exception + pydict) \<times> world" where
  "get_quote settings TOKEN_DECIMALS self chain from_token to_token from_amount user_address w =
     (let headers =
            [(''accept'', ''*/*''),
             (''content-type'', ''application/json''),
             (''0x-api-key'', self_api_key self),
             (''0x-version'', ''v2'')];
          params =
            [(''sellToken'', from_token),
             (''buyToken'', to_token),
             (''sellAmount'', str_int from_amount),
             (''taker'', user_address),
             (''chainId'', chain)];
          (start_time, w0) = perf_counter w;
          (got, w1) = requests_get (url settings) headers params 10 w0
      in (case got of
            Inl e \<Rightarrow> handle_exception start_time e w1
          | Inr response \<Rightarrow>
              let (t, w2) = perf_counter w1;
                  elapsed_time = float_sub t start_time
              in (case
                    (case raise_for_status response of
                       Inl e \<Rightarrow> Inl e
                     | Inr u \<Rightarrow>
                         (case response_json response of
                            Inl e \<Rightarrow> Inl e
                          | Inr j \<Rightarrow>
                              (case json_get j ''buyAmount'' of
                                 Inl e \<Rightarrow> Inl e
                               | Inr raw_output \<Rightarrow>
                                   Inr [(''name'', PStr name),
                                        (''output_amount'',
                                           format_output TOKEN_DECIMALS to_token raw_output),
                                        (''elapsed_time'', PFloat elapsed_time),
                                        (''status_code'', PInt (status_code response)),
                                        (''raw_response'', j)])))
                  of
                    Inl e \<Rightarrow> handle_exception start_time e w2
                  | Inr d \<Rightarrow> (Inr d, w2))))"

text \<open>A call that leaves \<^verbatim>\<open>user_address\<close> out takes the default, \<^verbatim>\<open>USER_ADDRESS\<close> of
  \<^verbatim>\<open>data.user\<close> (a module outside these sources, so the constant is an argument).\<close>

definition get_quote_call ::
  "string \<Rightarrow> ZeroxSettings \<Rightarrow> (string \<rightharpoonup> nat) \<Rightarrow> provider \<Rightarrow> string \<Rightarrow> string \<Rightarrow> string \<Rightarrow> int
    \<Rightarrow> string option \<Rightarrow> world \<Rightarrow> (py_exception + pydict) \<times> world" where
  "get_quote_call USER_ADDRESS settings TOKEN_DECIMALS self chain from_token to_token from_amount
       user_address w =
     get_quote settings TOKEN_DECIMALS self chain from_token to_token from_amount
       (case user_address of None \<Rightarrow> USER_ADDRESS | Some a \<Rightarrow> a) w"

section \<open>Properties of \<^verbatim>\<open>get_quote\<close>\<close>

text \<open>The request that \<^verbatim>\<open>get_quote\<close> builds from its arguments (lines 22 to 38).\<close>

definition quote_request ::
  "ZeroxSettings \<Rightarrow> provider \<Rightarrow> string \<Rightarrow> string \<Rightarrow> string \<Rightarrow> int \<Rightarrow> string \<Rightarrow> http_request" where
  "quote_request settings self chain from_token to_token from_amount user_address =
     \<lparr>req_method = ''GET'', req_url = url settings,
      req_headers =
        [(''accept'', ''*/*''), (''content-type'', ''application/json''),
         (''0x-api-key'', self_api_key self), (''0x-version'', ''v2'')],
      req_params =
        [(''sellToken'', from_token), (''buyToken'', to_token),
         (''sellAmount'', str_int from_amount), (''taker'', user_address),
         (''chainId'', chain)],
      req_timeout = 10\<rparr>"

text \<open>Concrete surroundings for the examples: settings, a response with a JSON body, and
  a world whose network gives one fixed answer and whose clock advances a quarter of a
  second from one reading to the next.\<close>

definition demo_settings :: ZeroxSettings where
  "demo_settings = \<lparr>url = ''https://api.0x.org/swap/allowance-holder/quote'', api_key = ''k''\<rparr>"

definition json_response :: "int \<Rightarrow> pyval \<Rightarrow> response" where
  "json_response code v = \<lparr>status_code = code, reason = ''R'', resp_url = ''u'', body = Inr v\<rparr>"

definition answering :: "py_exception + response \<Rightarrow> world" where
  "answering got =
     \<lparr>clock = (\<lambda>n. Finite (of_nat n / 4)), reads = 0, network = (\<lambda>req. got), sent = []\<rparr>"

definition USDT0 :: string where
  "USDT0 = ''0xb8ce59fc3717ada4c02eadf9682a9e934f625ebb''"

definition USDe :: string where
  "USDe = ''0x5d3a1ff2b6bab83b63cd9ad0787074081a52ef34''"

text \<open>The value under a key of the returned dictionary; \<open>None\<close> when the key is missing or
  an exception left the function.\<close>

definition field :: "string \<Rightarrow> py_exception + pydict \<Rightarrow> pyval option" where
  "field k res = (case res of Inl e \<Rightarrow> None | Inr d \<Rightarrow> map_of d k)"

text \<open>The decimals that \<^verbatim>\<open>CHAIN_CONFIG\<close> gives a trading token of a chain.\<close>

definition configured_decimals :: "string \<Rightarrow> string \<Rightarrow> nat option" where
  "configured_decimals chain addr =
     (case map_of CHAIN_CONFIG chain of
        None \<Rightarrow> None
      | Some c \<Rightarrow> map_option decimals (find (\<lambda>t. address t = addr) (trading_tokens c)))"

lemma get_quote_sent:
  "sent (snd (get_quote st TD self chain ft tt amt ua w)) =
     sent w @ [quote_request st self chain ft tt amt ua]"
  by (simp add: get_quote_def requests_get_def quote_request_def handle_exception_def
      perf_counter_def Let_def split_beta split: sum.splits py_exception.splits)

lemma get_quote_returns:
  assumes "network w (quote_request st self chain ft tt amt ua) = Inr r"
    and "\<not> (400 \<le> status_code r \<and> status_code r < 600)"
    and "body r = Inr (PDict kvs)"
  shows "fst (get_quote st TD self chain ft tt amt ua w) =
     Inr [(''name'', PStr ''0x''),
          (''output_amount'', format_output TD tt (dict_get kvs ''buyAmount'')),
          (''elapsed_time'', PFloat (float_sub (clock w (Suc (reads w))) (clock w (reads w)))),
          (''status_code'', PInt (status_code r)),
          (''raw_response'', PDict kvs)]"
  using assms
  by (auto simp add: get_quote_def requests_get_def quote_request_def Let_def split_beta
      raise_for_status_def response_json_def json_get_def perf_counter_def handle_exception_def name_def)

lemma get_quote_fails:
  assumes "network w (quote_request st self chain ft tt amt ua) = Inl (RequestException msg ro)"
  shows "fst (get_quote st TD self chain ft tt amt ua w) =
     Inr [(''name'', PStr ''0x''),
          (''error'', PStr msg),
          (''elapsed_time'', PFloat (float_sub (clock w (Suc (reads w))) (clock w (reads w)))),
          (''status_code'',
             (case ro of Some resp \<Rightarrow> if response_ok resp then PInt (status_code resp) else PNone
              | None \<Rightarrow> PNone))]"
  using assms
  by (simp add: get_quote_def requests_get_def quote_request_def Let_def split_beta
      perf_counter_def handle_exception_def name_def)

lemma get_quote_http_error:
  assumes "network w (quote_request st self chain ft tt amt ua) = Inr r"
    and "400 \<le> status_code r" "status_code r < 600"
  shows "\<exists>msg. fst (get_quote st TD self chain ft tt amt ua w) =
     Inr [(''name'', PStr ''0x''),
          (''error'', PStr msg),
          (''elapsed_time'', PFloat (float_sub (clock w (Suc (Suc (reads w)))) (clock w (reads w)))),
          (''status_code'', PNone)]"
  using assms
  by (auto simp add: get_quote_def requests_get_def quote_request_def Let_def split_beta
      raise_for_status_def response_ok_def perf_counter_def handle_exception_def name_def)

lemma answering_network: "network (answering got) req = got"
  by (simp add: answering_def)

lemma json_response_sel:
  "status_code (json_response code v) = code" "body (json_response code v) = Inr v"
  by (simp_all add: json_response_def)

text \<open>
  C5. As stated the claim fails for a 2xx response whose JSON body is not an object: a
  list has no \<^verbatim>\<open>get\<close>, and the \<^verbatim>\<open>AttributeError\<close> of line 43 leaves the function. For a
  2xx response whose JSON object has no key \<^verbatim>\<open>buyAmount\<close>, \<^verbatim>\<open>get_quote\<close> returns (no
  exception leaves it) the success dictionary with \<^verbatim>\<open>output_amount\<close> set to \<^verbatim>\<open>None\<close>.
\<close>

theorem C5_absent_buy_amount:
  assumes "network w (quote_request st self chain ft tt amt ua) = Inr r"
    and "200 \<le> status_code r" and "status_code r < 300"
    and "body r = Inr (PDict kvs)"
    and "map_of kvs ''buyAmount'' = None"
  shows "fst (get_quote st TD self chain ft tt amt ua w) =
     Inr [(''name'', PStr ''0x''),
          (''output_amount'', PNone),
          (''elapsed_time'', PFloat (float_sub (clock w (Suc (reads w))) (clock w (reads w)))),
          (''status_code'', PInt (status_code r)),
          (''raw_response'', PDict kvs)]"
proof -
  have "\<not> (400 \<le> status_code r \<and> status_code r < 600)"
    using assms(3) by simp
  from get_quote_returns [OF assms(1) this assms(4)] assms(5)
  show ?thesis by (simp add: dict_get_def format_output_def)
qed

theorem C5_absent_buy_amount_witness:
  "fst (get_quote demo_settings Map.empty (ZeroxProvider demo_settings) ''1'' USDe USDT0 5 ''0xabc''
         (answering (Inr (json_response 200 (PDict [(''price'', PStr ''1'')]))))) =
     Inr [(''name'', PStr ''0x''),
          (''output_amount'', PNone),
          (''elapsed_time'', PFloat (float_sub (Finite (1 / 4)) (Finite 0))),
          (''status_code'', PInt 200),
          (''raw_response'', PDict [(''price'', PStr ''1'')])]"
  using C5_absent_buy_amount [OF answering_network, where kvs = "[(''price'', PStr ''1'')]"
      and TD = Map.empty]
  by (simp add: json_response_sel answering_def)

theorem C5_list_body_counterexample:
  "fst (get_quote demo_settings Map.empty (ZeroxProvider demo_settings) ''1'' USDe USDT0 5 ''0xabc''
         (answering (Inr (json_response 200 (PList []))))) =
     Inl AttributeError"
  by (simp add: get_quote_def requests_get_def Let_def split_beta raise_for_status_def
      response_json_def json_get_def perf_counter_def handle_exception_def answering_def
      json_response_def)

lemma get_quote_2xx:
  assumes "network w (quote_request st self chain ft tt amt ua) = Inr r"
    and "200 \<le> status_code r" and "status_code r < 300"
    and "body r = Inr (PDict kvs)"
  shows "fst (get_quote st TD self chain ft tt amt ua w) =
     Inr [(''name'', PStr ''0x''),
          (''output_amount'', format_output TD tt (dict_get kvs ''buyAmount'')),
          (''elapsed_time'', PFloat (float_sub (clock w (Suc (reads w))) (clock w (reads w)))),
          (''status_code'', PInt (status_code r)),
          (''raw_response'', PDict kvs)]"
proof -
  have "\<not> (400 \<le> status_code r \<and> status_code r < 600)"
    using assms(3) by simp
  from get_quote_returns [OF assms(1) this assms(4)] show ?thesis .
qed

text \<open>
  C8. Presence of \<^verbatim>\<open>buyAmount\<close> is decided by truthiness: a 2xx response whose object
  holds \<^verbatim>\<open>buyAmount\<close> with a falsy value gives \<^verbatim>\<open>output_amount = None\<close>, the same as
  an object without the key; the number 0, the empty string, \<^verbatim>\<open>null\<close> and \<^verbatim>\<open>false\<close>
  are falsy.
\<close>

theorem C8_falsy_buy_amount:
  assumes "network w (quote_request st self chain ft tt amt ua) = Inr r"
    and "200 \<le> status_code r" and "status_code r < 300"
    and "body r = Inr (PDict kvs)"
    and "map_of kvs ''buyAmount'' = Some v"
    and "\<not> py_bool v"
  shows "field ''output_amount'' (fst (get_quote st TD self chain ft tt amt ua w)) = Some PNone
    \<and> \<not> py_bool (PInt 0) \<and> \<not> py_bool (PStr []) \<and> \<not> py_bool PNone \<and> \<not> py_bool (PBool False)"
  using get_quote_2xx [OF assms(1-4)] assms(5,6)
  by (simp add: dict_get_def format_output_def field_def)

theorem C8_falsy_buy_amount_witness:
  "field ''output_amount''
     (fst (get_quote demo_settings [USDT0 \<mapsto> 6] (ZeroxProvider demo_settings) ''1'' USDe USDT0 5
            ''0xabc'' (answering (Inr (json_response 200 (PDict [(''buyAmount'', PInt 0)])))))) =
     Some PNone
   \<and> \<not> py_bool (PInt 0) \<and> \<not> py_bool (PStr []) \<and> \<not> py_bool PNone \<and> \<not> py_bool (PBool False)"
  using C8_falsy_buy_amount [OF answering_network,
      where r = "json_response 200 (PDict [(''buyAmount'', PInt 0)])"
      and kvs = "[(''buyAmount'', PInt 0)]" and v = "PInt 0" and TD = "[USDT0 \<mapsto> 6]"]
  by (simp add: json_response_sel)

text \<open>
  C7. Every call sends exactly one request: a GET to the configured URL with the five
  query parameters (the taker being the given address, or \<^verbatim>\<open>USER_ADDRESS\<close> when none is
  given) and the four headers, the API key being the configured one.
\<close>

theorem C7_one_request:
  "sent (snd (get_quote_call USER_ADDRESS settings TD (ZeroxProvider settings) chain from_token
                to_token from_amount user_address w)) =
     sent w @
       [\<lparr>req_method = ''GET'', req_url = url settings,
         req_headers =
           [(''accept'', ''*/*''), (''content-type'', ''application/json''),
            (''0x-api-key'', api_key settings), (''0x-version'', ''v2'')],
         req_params =
           [(''sellToken'', from_token), (''buyToken'', to_token),
            (''sellAmount'', str_int from_amount),
            (''taker'', (case user_address of None \<Rightarrow> USER_ADDRESS | Some a \<Rightarrow> a)),
            (''chainId'', chain)],
         req_timeout = 10\<rparr>]"
  by (simp add: get_quote_call_def get_quote_sent quote_request_def ZeroxProvider_def)

text \<open>
  C10. The chain argument is not validated: whatever the chain string, the request is
  sent with it as \<^verbatim>\<open>chainId\<close>. The list \<^verbatim>\<open>supported_chains\<close> is never consulted, and it
  leaves out \<^verbatim>\<open>"999"\<close>, a chain that \<^verbatim>\<open>CHAIN_CONFIG\<close> configures.
\<close>

theorem C10_chain_not_validated:
  "sent (snd (get_quote settings TD self chain from_token to_token from_amount user_address w)) =
     sent w @ [quote_request settings self chain from_token to_token from_amount user_address]
   \<and> map_of (req_params
        (quote_request settings self chain from_token to_token from_amount user_address))
        ''chainId'' = Some chain
   \<and> ''999'' \<notin> set supported_chains
   \<and> ''999'' \<in> set (map fst CHAIN_CONFIG)"
  by (simp add: get_quote_sent quote_request_def supported_chains_def CHAIN_CONFIG_def)

text \<open>
  C3. As stated the claim fails for a falsy \<^verbatim>\<open>buyAmount\<close> (the number 0): the output
  is \<^verbatim>\<open>None\<close>, not \<^verbatim>\<open>"0"\<close>. For a truthy \<^verbatim>\<open>buyAmount\<close> and a buy token whose
  lower-cased address is not in the decimals table, \<^verbatim>\<open>get_quote\<close> returns the success
  dictionary with \<^verbatim>\<open>output_amount = str(raw_output)\<close> and no \<^verbatim>\<open>error\<close> key.
\<close>

theorem C3_unknown_decimals:
  assumes "network w (quote_request st self chain ft tt amt ua) = Inr r"
    and "200 \<le> status_code r" and "status_code r < 300"
    and "body r = Inr (PDict kvs)"
    and "map_of kvs ''buyAmount'' = Some raw"
    and "py_bool raw"
    and "TD (lower tt) = None"
  shows "fst (get_quote st TD self chain ft tt amt ua w) =
     Inr [(''name'', PStr ''0x''),
          (''output_amount'', PStr (py_str raw)),
          (''elapsed_time'', PFloat (float_sub (clock w (Suc (reads w))) (clock w (reads w)))),
          (''status_code'', PInt (status_code r)),
          (''raw_response'', PDict kvs)]
    \<and> field ''error'' (fst (get_quote st TD self chain ft tt amt ua w)) = None"
  using get_quote_2xx [OF assms(1-4)] assms(5-7)
  by (simp add: dict_get_def format_output_def field_def)

theorem C3_unknown_decimals_witness:
  "fst (get_quote demo_settings Map.empty (ZeroxProvider demo_settings) ''999'' USDe USDT0 5 ''0xabc''
         (answering (Inr (json_response 200 (PDict [(''buyAmount'', PStr ''123456'')]))))) =
     Inr [(''name'', PStr ''0x''),
          (''output_amount'', PStr ''123456''),
          (''elapsed_time'', PFloat (float_sub (Finite (1 / 4)) (Finite 0))),
          (''status_code'', PInt 200),
          (''raw_response'', PDict [(''buyAmount'', PStr ''123456'')])]
   \<and> field ''error''
        (fst (get_quote demo_settings Map.empty (ZeroxProvider demo_settings) ''999'' USDe USDT0 5
               ''0xabc''
               (answering (Inr (json_response 200 (PDict [(''buyAmount'', PStr ''123456'')])))))) =
       None"
  using C3_unknown_decimals [OF answering_network,
      where r = "json_response 200 (PDict [(''buyAmount'', PStr ''123456'')])"
      and kvs = "[(''buyAmount'', PStr ''123456'')]" and raw = "PStr ''123456''"
      and TD = Map.empty and tt = USDT0]
  by (simp add: json_response_sel answering_def py_str_def field_def)

theorem C3_falsy_counterexample:
  "field ''output_amount''
     (fst (get_quote demo_settings Map.empty (ZeroxProvider demo_settings) ''999'' USDe USDT0 5
            ''0xabc'' (answering (Inr (json_response 200 (PDict [(''buyAmount'', PInt 0)])))))) =
     Some PNone
   \<and> Some PNone \<noteq> Some (PStr (py_str (PInt 0)))"
  using get_quote_2xx [OF answering_network,
      where r = "json_response 200 (PDict [(''buyAmount'', PInt 0)])"
      and kvs = "[(''buyAmount'', PInt 0)]" and TD = Map.empty and tt = USDT0]
  by (simp add: json_response_sel dict_get_def format_output_def field_def)

text \<open>
  C4. The claim is that a failure with a response at hand reports that response's status
  code. The handler writes \<^verbatim>\<open>e.response.status_code if e.response else None\<close>, and the
  truth value of a response is its \<^verbatim>\<open>ok\<close>, false for every status that
  \<^verbatim>\<open>raise_for_status\<close> raises for: a 404 answer gives \<^verbatim>\<open>status_code = None\<close>.
\<close>

theorem C4_status_lost_on_404:
  "fst (get_quote demo_settings Map.empty (ZeroxProvider demo_settings) ''1'' USDe USDT0 5 ''0xabc''
         (answering (Inr (json_response 404 (PDict []))))) =
     Inr [(''name'', PStr ''0x''),
          (''error'', PStr ''404 Client Error: R for url: u''),
          (''elapsed_time'', PFloat (float_sub (Finite (1 / 2)) (Finite 0))),
          (''status_code'', PNone)]"
proof -
  have "str_int 404 = ''404''"
    by code_simp
  then show ?thesis
    by (simp add: get_quote_def requests_get_def Let_def split_beta raise_for_status_def
        response_ok_def perf_counter_def handle_exception_def name_def answering_def
        json_response_def)
qed

text \<open>
  C6. As stated the claim fails for a status that is neither 2xx nor 4xx/5xx: a 300
  answer with a JSON object is returned as a success record, since \<^verbatim>\<open>raise_for_status\<close>
  raises for 400 to 599 only. For every failure that reaches the handler (the request
  raising a \<^verbatim>\<open>RequestException\<close>, or a status from 400 to 599) \<^verbatim>\<open>get_quote\<close> returns
  a record with the provider name, an error string and an elapsed time, without
  \<^verbatim>\<open>output_amount\<close> and without \<^verbatim>\<open>raw_response\<close>, after exactly one request.
\<close>

theorem C6_failure_record:
  assumes "network w (quote_request st self chain ft tt amt ua) = got"
    and "(\<exists>msg ro. got = Inl (RequestException msg ro))
       \<or> (\<exists>r. got = Inr r \<and> 400 \<le> status_code r \<and> status_code r < 600)"
  shows "\<exists>d msg.
      fst (get_quote st TD self chain ft tt amt ua w) = Inr d
    \<and> map_of d ''name'' = Some (PStr ''0x'')
    \<and> map_of d ''error'' = Some (PStr msg)
    \<and> map_of d ''elapsed_time'' =
        Some (PFloat (float_sub
                (case got of
                   Inl e \<Rightarrow> clock w (Suc (reads w))
                 | Inr r \<Rightarrow> clock w (Suc (Suc (reads w))))
                (clock w (reads w))))
    \<and> map_of d ''output_amount'' = None
    \<and> map_of d ''raw_response'' = None
    \<and> sent (snd (get_quote st TD self chain ft tt amt ua w)) =
        sent w @ [quote_request st self chain ft tt amt ua]"
proof -
  from assms(2) show ?thesis
  proof
    assume "\<exists>msg ro. got = Inl (RequestException msg ro)"
    then obtain msg ro where g: "got = Inl (RequestException msg ro)" by blast
    with assms(1) have "network w (quote_request st self chain ft tt amt ua) =
        Inl (RequestException msg ro)" by simp
    from get_quote_fails [OF this] show ?thesis
      by (simp add: get_quote_sent g)
  next
    assume "\<exists>r. got = Inr r \<and> 400 \<le> status_code r \<and> status_code r < 600"
    then obtain r where r: "got = Inr r" "400 \<le> status_code r" "status_code r < 600" by blast
    with assms(1) have "network w (quote_request st self chain ft tt amt ua) = Inr r"
      by simp
    from get_quote_http_error [OF this r(2,3)] obtain msg where
      "fst (get_quote st TD self chain ft tt amt ua w) =
         Inr [(''name'', PStr ''0x''), (''error'', PStr msg),
              (''elapsed_time'', PFloat (float_sub (clock w (Suc (Suc (reads w)))) (clock w (reads w)))), (''status_code'', PNone)]"
      by blast
    then show ?thesis
      by (simp add: get_quote_sent r(1))
  qed
qed

theorem C6_failure_record_witness:
  "\<exists>d msg.
      fst (get_quote demo_settings Map.empty (ZeroxProvider demo_settings) ''1'' USDe USDT0 5
            ''0xabc'' (answering (Inl (RequestException ''timed out'' None)))) = Inr d
    \<and> map_of d ''name'' = Some (PStr ''0x'')
    \<and> map_of d ''error'' = Some (PStr msg)
    \<and> map_of d ''elapsed_time'' = Some (PFloat (float_sub (Finite (1 / 4)) (Finite 0)))
    \<and> map_of d ''output_amount'' = None
    \<and> map_of d ''raw_response'' = None
    \<and> sent (snd (get_quote demo_settings Map.empty (ZeroxProvider demo_settings) ''1'' USDe
                    USDT0 5 ''0xabc'' (answering (Inl (RequestException ''timed out'' None))))) =
        [quote_request demo_settings (ZeroxProvider demo_settings) ''1'' USDe USDT0 5 ''0xabc'']"
  using C6_failure_record [OF answering_network,
      where got = "Inl (RequestException ''timed out'' None)" and TD = Map.empty
      and st = demo_settings and self = "ZeroxProvider demo_settings" and chain = "''1''"
      and ft = USDe and tt = USDT0 and amt = 5 and ua = "''0xabc''"]
  by (simp add: answering_def)

theorem C6_status_300_counterexample:
  "fst (get_quote demo_settings Map.empty (ZeroxProvider demo_settings) ''1'' USDe USDT0 5 ''0xabc''
         (answering (Inr (json_response 300 (PDict [(''buyAmount'', PStr ''7'')]))))) =
     Inr [(''name'', PStr ''0x''),
          (''output_amount'', PStr ''7''),
          (''elapsed_time'', PFloat (float_sub (Finite (1 / 4)) (Finite 0))),
          (''status_code'', PInt 300),
          (''raw_response'', PDict [(''buyAmount'', PStr ''7'')])]"
  using get_quote_returns [OF answering_network,
      where r = "json_response 300 (PDict [(''buyAmount'', PStr ''7'')])"
      and kvs = "[(''buyAmount'', PStr ''7'')]" and TD = Map.empty and tt = USDT0]
  by (simp add: json_response_sel answering_def dict_get_def format_output_def py_str_def)

text \<open>
  C9. For a 2xx response with a truthy \<^verbatim>\<open>buyAmount\<close> and a buy token of known decimals,
  whatever the conversion raises (\<^verbatim>\<open>float\<close> rejecting the value, or the division
  failing) is caught: \<^verbatim>\<open>get_quote\<close> returns the success record with
  \<^verbatim>\<open>output_amount = str(raw_output)\<close>.
\<close>

theorem C9_conversion_error_caught:
  assumes "network w (quote_request st self chain ft tt amt ua) = Inr r"
    and "200 \<le> status_code r" and "status_code r < 300"
    and "body r = Inr (PDict kvs)"
    and "map_of kvs ''buyAmount'' = Some raw"
    and "py_bool raw"
    and "TD (lower tt) = Some d"
    and "(\<exists>e. py_float raw = Inl e)
       \<or> (\<exists>x e. py_float raw = Inr x \<and> truediv_int x (10 ^ d) = Inl e)"
  shows "fst (get_quote st TD self chain ft tt amt ua w) =
     Inr [(''name'', PStr ''0x''),
          (''output_amount'', PStr (py_str raw)),
          (''elapsed_time'', PFloat (float_sub (clock w (Suc (reads w))) (clock w (reads w)))),
          (''status_code'', PInt (status_code r)),
          (''raw_response'', PDict kvs)]"
  using get_quote_2xx [OF assms(1-4)] assms(5-8)
  by (auto simp add: dict_get_def format_output_def)

lemma float_of_abc: "float_of_string ''abc'' = Inl ValueError"
  by (simp add: float_of_string_def strip_space_def is_space_def is_digit_def ascii_lower_def
      parse_decimal_def Let_def)

lemma lower_USDT0: "lower USDT0 = USDT0"
  by (simp add: lower_def lower_char_def USDT0_def)

theorem C9_conversion_error_caught_witness:
  "fst (get_quote demo_settings [USDT0 \<mapsto> 6] (ZeroxProvider demo_settings) ''999'' USDe USDT0 5
         ''0xabc'' (answering (Inr (json_response 200 (PDict [(''buyAmount'', PStr ''abc'')]))))) =
     Inr [(''name'', PStr ''0x''),
          (''output_amount'', PStr ''abc''),
          (''elapsed_time'', PFloat (float_sub (Finite (1 / 4)) (Finite 0))),
          (''status_code'', PInt 200),
          (''raw_response'', PDict [(''buyAmount'', PStr ''abc'')])]"
  using C9_conversion_error_caught [OF answering_network,
      where r = "json_response 200 (PDict [(''buyAmount'', PStr ''abc'')])"
      and kvs = "[(''buyAmount'', PStr ''abc'')]" and raw = "PStr ''abc''"
      and TD = "[USDT0 \<mapsto> 6]" and tt = USDT0 and d = 6]
  by (simp add: json_response_sel answering_def py_str_def float_of_abc lower_USDT0)

lemma float_of_2000000: "float_of_string ''2000000'' = Inr (Finite 2000000)"
  by code_simp

lemma div_2000000: "truediv_int (Finite 2000000) 1000000 = Inr (Finite 2)"
  by code_simp

lemma str_float_2: "repr_positive 2 = ''2.0''"
  by code_simp

lemma configured_USDT0: "configured_decimals ''999'' USDT0 = Some 6"
  by (simp add: configured_decimals_def CHAIN_CONFIG_def USDT0_def)

lemma configured_USDe: "configured_decimals ''999'' USDe = Some 18"
  by (simp add: configured_decimals_def CHAIN_CONFIG_def USDe_def)




text \<open>
  C2. Chain \<^verbatim>\<open>"999"\<close>, selling 1000000000000000000 base units of USDe (18 decimals) for
  USDT0, whose configured decimal count is 6: when the API answers 2xx with
  \<^verbatim>\<open>buyAmount = "2000000"\<close>, the output amount is \<^verbatim>\<open>"2.0"\<close>.
\<close>

theorem C2_usdt0_scenario:
  assumes "network w (quote_request st self ''999'' USDe USDT0 1000000000000000000 ua) = Inr r"
    and "200 \<le> status_code r" and "status_code r < 300"
    and "body r = Inr (PDict kvs)"
    and "map_of kvs ''buyAmount'' = Some (PStr ''2000000'')"
    and "TD (lower USDT0) = configured_decimals ''999'' USDT0"
  shows "field ''output_amount''
      (fst (get_quote st TD self ''999'' USDe USDT0 1000000000000000000 ua w)) =
      Some (PStr ''2.0'')
    \<and> configured_decimals ''999'' USDT0 = Some 6
    \<and> configured_decimals ''999'' USDe = Some 18"
proof -
  have td: "TD (lower USDT0) = Some 6"
    using assms(6) by (simp add: configured_USDT0)
  have "format_output TD USDT0 (PStr ''2000000'') = PStr ''2.0''"
    using td by (simp add: format_output_def float_of_2000000 div_2000000 str_float_2)
  with get_quote_2xx [OF assms(1-4)] assms(5) show ?thesis
    by (simp add: dict_get_def field_def configured_USDT0 configured_USDe)
qed

theorem C2_usdt0_scenario_witness:
  "field ''output_amount''
      (fst (get_quote demo_settings (configured_decimals ''999'') (ZeroxProvider demo_settings)
             ''999'' USDe USDT0 1000000000000000000 ''0xabc''
             (answering (Inr (json_response 200 (PDict [(''buyAmount'', PStr ''2000000'')])))))) =
      Some (PStr ''2.0'')
    \<and> configured_decimals ''999'' USDT0 = Some 6
    \<and> configured_decimals ''999'' USDe = Some 18"
  using C2_usdt0_scenario [OF answering_network,
      where r = "json_response 200 (PDict [(''buyAmount'', PStr ''2000000'')])"
      and kvs = "[(''buyAmount'', PStr ''2000000'')]" and TD = "configured_decimals ''999''"]
  by (simp add: json_response_sel lower_USDT0)

end
